theory Spec2Isabelle
  imports Main "HOL-Library.Char_ord" "HOL-Library.List_Lexorder"
begin

section \<open>Timestamps\<close>

text \<open>
  The service handles instants as JavaScript \<^verbatim>\<open>Date\<close> values: Joi's \<^verbatim>\<open>date().iso()\<close>
  turns the ISO string of the request into a \<^verbatim>\<open>Date\<close>, Joi's \<^verbatim>\<open>greater\<close> compares two of
  them by \<^verbatim>\<open>getTime()\<close>, and moment reads the calendar fields back for the index keys.
  A \<^verbatim>\<open>Date\<close> is represented here by its calendar reading (in the time zone moment
  formats in, UTC on AWS Lambda). On readings of the same zone, the order of the instants is
  the lexicographic order of the fields, which is what \<open>earlier\<close> computes.
  The year is an \<open>int\<close>: ISO 8601 as Joi accepts it has expanded years
  (\<^verbatim>\<open>+010000-01-01T00:00:00Z\<close>, \<^verbatim>\<open>-000002-01-01T00:00:00Z\<close>).
\<close>

record datetime =
  year :: int
  month :: nat
  day :: nat
  hour :: nat
  minute :: nat
  second :: nat
  millisecond :: nat

definition earlier :: "datetime \<Rightarrow> datetime \<Rightarrow> bool" where
  "earlier a b \<longleftrightarrow>
     year a < year b \<or> (year a = year b \<and>
    (month a < month b \<or> (month a = month b \<and>
    (day a < day b \<or> (day a = day b \<and>
    (hour a < hour b \<or> (hour a = hour b \<and>
    (minute a < minute b \<or> (minute a = minute b \<and>
    (second a < second b \<or> (second a = second b \<and>
     millisecond a < millisecond b)))))))))))"

definition valid_datetime :: "datetime \<Rightarrow> bool" where
  "valid_datetime d \<longleftrightarrow>
     1 \<le> month d \<and> month d \<le> 12 \<and> 1 \<le> day d \<and> day d \<le> 31 \<and>
     hour d < 24 \<and> minute d < 60 \<and> second d < 60 \<and> millisecond d < 1000"

subsection \<open>moment's formatting\<close>

text \<open>
  moment's \<^verbatim>\<open>zeroFill(number, targetLength, forceSign)\<close>: the decimal digits of the absolute
  value, padded on the left with zeros up to \<open>targetLength\<close> and never truncated, behind
  a sign. The tokens \<^verbatim>\<open>YYYY\<close>, \<^verbatim>\<open>MM\<close>, \<^verbatim>\<open>DD\<close>, \<^verbatim>\<open>HH\<close>, \<^verbatim>\<open>mm\<close>, \<^verbatim>\<open>ss\<close> are
  \<open>zeroFill\<close> of the field to 4 or 2 places without a forced sign.
\<close>

definition digit :: "nat \<Rightarrow> char" where
  "digit d = ''0123456789'' ! d"

fun decimal :: "nat \<Rightarrow> string" where
  "decimal n = (if n < 10 then [digit n] else decimal (n div 10) @ [digit (n mod 10)])"

declare decimal.simps [simp del]

text \<open>
  The decimal digits of a number in exactly \<open>k\<close> places, most significant first: what
  \<open>zeroFill\<close> returns for a number of \<open>0 .. 10 ^ k - 1\<close> (lemma \<open>zeroFill_fixed\<close>).
\<close>

fun fixed :: "nat \<Rightarrow> nat \<Rightarrow> string" where
  "fixed 0 n = []"
| "fixed (Suc k) n = fixed k (n div 10) @ [digit (n mod 10)]"

definition zeroFill :: "int \<Rightarrow> nat \<Rightarrow> bool \<Rightarrow> string" where
  "zeroFill number targetLength forceSign =
     (let absNumber = decimal (nat \<bar>number\<bar>);
          zerosToFill = int targetLength - int (length absNumber);
          sign = (number \<ge> 0)
      in (if sign then (if forceSign then ''+'' else '''') else ''-'')
         @ replicate (nat (max 0 zerosToFill)) CHR ''0'' @ absNumber)"

definition format_YYYY_MM_DD :: "datetime \<Rightarrow> string" where
  "format_YYYY_MM_DD d =
     zeroFill (year d) 4 False @ ''-'' @ zeroFill (int (month d)) 2 False @ ''-''
     @ zeroFill (int (day d)) 2 False"

definition format_HH_mm_ss :: "datetime \<Rightarrow> string" where
  "format_HH_mm_ss d =
     zeroFill (int (hour d)) 2 False @ '':'' @ zeroFill (int (minute d)) 2 False @ '':''
     @ zeroFill (int (second d)) 2 False"

section \<open>Key codec\<close>

text \<open>
  The template strings of \<^verbatim>\<open>AppointmentService\<close>: the primary key (PK, SK) of
  \<^verbatim>\<open>getAppointment\<close>, \<^verbatim>\<open>createAppointment\<close>, \<^verbatim>\<open>updateAppointment\<close> and
  \<^verbatim>\<open>deleteAppointment\<close>, and the keys of the two secondary indexes GSI1 (by tenant) and
  GSI2 (by tenant and user) written by \<^verbatim>\<open>createAppointment\<close> and queried by
  \<^verbatim>\<open>listAppointments\<close>.
\<close>

definition PK_of :: "string \<Rightarrow> string \<Rightarrow> string" where
  "PK_of tenantId appointmentId = ''TENANT#'' @ tenantId @ ''#APPOINTMENT#'' @ appointmentId"

definition SK_of :: "string \<Rightarrow> string" where
  "SK_of appointmentId = ''APPOINTMENT#'' @ appointmentId"

definition primaryKey :: "string \<Rightarrow> string \<Rightarrow> string \<times> string" where
  "primaryKey tenantId appointmentId = (PK_of tenantId appointmentId, SK_of appointmentId)"

definition GSI1PK_of :: "string \<Rightarrow> string" where
  "GSI1PK_of tenantId = ''TENANT#'' @ tenantId"

definition GSI1SK_of :: "datetime \<Rightarrow> string" where
  "GSI1SK_of startTime = ''DATE#'' @ format_YYYY_MM_DD startTime @ ''#TIME#'' @ format_HH_mm_ss startTime"

definition GSI2PK_of :: "string \<Rightarrow> string \<Rightarrow> string" where
  "GSI2PK_of tenantId userId = ''TENANT#'' @ tenantId @ ''#USER#'' @ userId"

definition GSI2SK_of :: "datetime \<Rightarrow> string" where
  "GSI2SK_of startTime = ''DATE#'' @ format_YYYY_MM_DD startTime @ ''#TIME#'' @ format_HH_mm_ss startTime"

section \<open>Data\<close>

text \<open>
  \<open>appointmentData\<close> is the parsed request body, the input of both Joi schemas (they have
  the same eight keys, all optional in the update schema) and the \<^verbatim>\<open>value\<close> the update
  schema returns. \<open>createValue\<close> is the \<^verbatim>\<open>value\<close> the create schema returns: the required
  keys are there and the defaults are filled in. \<^verbatim>\<open>reminderMinutes\<close> is kept to
  whole minutes.
\<close>

record appointmentData =
  title :: "string option"
  description :: "string option"
  startTime :: "datetime option"
  endTime :: "datetime option"
  location :: "string option"
  attendees :: "string list option"
  status :: "string option"
  reminderMinutes :: "int option"

record createValue =
  title :: string
  description :: "string option"
  startTime :: datetime
  endTime :: datetime
  location :: "string option"
  attendees :: "string list option"
  status :: string
  reminderMinutes :: int

record AppointmentFilters =
  startDate :: "string option"
  endDate :: "string option"
  status :: "string option"
  userId :: "string option"

text \<open>
  An \<^verbatim>\<open>Appointment\<close> object as it exists at run time. The interface declares the first
  fourteen attributes. The item \<^verbatim>\<open>createAppointment\<close> puts into the table is
  \<^verbatim>\<open>{PK, SK, GSI1PK, GSI1SK, GSI2PK, GSI2SK, ...appointment}\<close>, and \<^verbatim>\<open>getAppointment\<close>
  returns \<^verbatim>\<open>result.Item as Appointment\<close>, a cast that removes nothing: the six key
  attributes are present (\<open>Some\<close>) on an object read from the table and absent (\<open>None\<close>) on
  the object \<^verbatim>\<open>createAppointment\<close> builds and returns.
\<close>

record Appointment =
  appointmentId :: string
  tenantId :: string
  userId :: string
  title :: string
  description :: "string option"
  startTime :: datetime
  endTime :: datetime
  location :: "string option"
  attendees :: "string list"
  status :: string
  reminderMinutes :: int
  createdAt :: datetime
  updatedAt :: datetime
  ttl :: "int option"
  PK :: "string option"
  SK :: "string option"
  GSI1PK :: "string option"
  GSI1SK :: "string option"
  GSI2PK :: "string option"
  GSI2SK :: "string option"

datatype error = ValidationError | AccessDenied | ConditionalCheckFailed | ValidationException

section \<open>Validation schemas\<close>

text \<open>
  The two Joi schemas. A Joi string is not empty unless \<^verbatim>\<open>allow('')\<close> says so;
  \<^verbatim>\<open>optional()\<close> lets a key be absent. What Joi takes for an e-mail address is a
  parameter, \<open>isEmail\<close>. The result is \<open>None\<close> where Joi reports an error.
\<close>

definition optional :: "('a \<Rightarrow> bool) \<Rightarrow> 'a option \<Rightarrow> bool" where
  "optional P x = (case x of None \<Rightarrow> True | Some v \<Rightarrow> P v)"

definition string_min_max :: "nat \<Rightarrow> nat \<Rightarrow> string \<Rightarrow> bool" where
  "string_min_max lo hi s \<longleftrightarrow> s \<noteq> [] \<and> lo \<le> length s \<and> length s \<le> hi"

definition valid_status :: "string \<Rightarrow> bool" where
  "valid_status s \<longleftrightarrow> s \<in> set [''scheduled'', ''confirmed'', ''cancelled'', ''completed'']"

definition valid_reminderMinutes :: "int \<Rightarrow> bool" where
  "valid_reminderMinutes n \<longleftrightarrow> 0 \<le> n \<and> n \<le> 10080"

definition appointmentSchema :: "(string \<Rightarrow> bool) \<Rightarrow> appointmentData \<Rightarrow> createValue option" where
  "appointmentSchema isEmail d =
     (case (appointmentData.title d, appointmentData.startTime d, appointmentData.endTime d) of
        (Some t, Some s, Some e) \<Rightarrow>
          if string_min_max 1 200 t
             \<and> optional (string_min_max 0 1000) (appointmentData.description d)
             \<and> earlier s e
             \<and> optional (string_min_max 0 200) (appointmentData.location d)
             \<and> optional (list_all isEmail) (appointmentData.attendees d)
             \<and> optional valid_status (appointmentData.status d)
             \<and> optional valid_reminderMinutes (appointmentData.reminderMinutes d)
          then Some \<lparr> createValue.title = t,
                      description = appointmentData.description d,
                      startTime = s,
                      endTime = e,
                      location = appointmentData.location d,
                      attendees = appointmentData.attendees d,
                      status = (case appointmentData.status d of None \<Rightarrow> ''scheduled'' | Some st \<Rightarrow> st),
                      reminderMinutes = (case appointmentData.reminderMinutes d of None \<Rightarrow> 60 | Some n \<Rightarrow> n) \<rparr>
          else None
      | _ \<Rightarrow> None)"

definition key_count :: "appointmentData \<Rightarrow> nat" where
  "key_count d =
     (if appointmentData.title d = None then 0 else 1)
   + (if appointmentData.description d = None then 0 else 1)
   + (if appointmentData.startTime d = None then 0 else 1)
   + (if appointmentData.endTime d = None then 0 else 1)
   + (if appointmentData.location d = None then 0 else 1)
   + (if appointmentData.attendees d = None then 0 else 1)
   + (if appointmentData.status d = None then 0 else 1)
   + (if appointmentData.reminderMinutes d = None then 0 else 1)"

definition updateAppointmentSchema :: "(string \<Rightarrow> bool) \<Rightarrow> appointmentData \<Rightarrow> appointmentData option" where
  "updateAppointmentSchema isEmail d =
     (if optional (string_min_max 1 200) (appointmentData.title d)
         \<and> optional (string_min_max 0 1000) (appointmentData.description d)
         \<and> optional (string_min_max 0 200) (appointmentData.location d)
         \<and> optional (list_all isEmail) (appointmentData.attendees d)
         \<and> optional valid_status (appointmentData.status d)
         \<and> optional valid_reminderMinutes (appointmentData.reminderMinutes d)
         \<and> 1 \<le> key_count d
      then Some d else None)"

section \<open>The table\<close>

text \<open>
  The DynamoDB table behind the \<^verbatim>\<open>DocumentClient\<close>, as the list of its items; requests
  are handled one after the other. An item is found by its primary key (PK, SK).
  The table keeps an attribute as the service wrote it. That is how the client treats
  strings, numbers and lists. It is not how it treats \<^verbatim>\<open>startTime\<close> and \<^verbatim>\<open>endTime\<close>:
  the service writes the \<^verbatim>\<open>Date\<close> objects that Joi returns, the client marshals a
  \<^verbatim>\<open>Date\<close> to an empty map, and the real table gives \<^verbatim>\<open>{}\<close> back for both. Where a
  statement below reads the two times of a stored item, it reads what the service wrote.
  \<^verbatim>\<open>put\<close> carries the condition \<^verbatim>\<open>attribute_not_exists(PK)\<close>, which fails when an item
  with the key of the new item is there. \<^verbatim>\<open>update\<close> applies the \<^verbatim>\<open>SET\<close> clauses to the
  item at the key and returns the item as it is afterwards (\<^verbatim>\<open>ALL_NEW\<close>); DynamoDB would
  create an item at a key that has none, a case \<^verbatim>\<open>updateAppointment\<close> excludes by reading
  the item first, and which is left without effect here. A query of an index returns the
  items whose index partition key is the given one, in the order of the index sort key.
\<close>

type_synonym table = "Appointment list"

definition has_key :: "string \<Rightarrow> string \<Rightarrow> Appointment \<Rightarrow> bool" where
  "has_key pk sk item \<longleftrightarrow> PK item = Some pk \<and> SK item = Some sk"

definition ddb_get :: "table \<Rightarrow> string \<Rightarrow> string \<Rightarrow> Appointment option" where
  "ddb_get tbl pk sk = find (has_key pk sk) tbl"

definition ddb_put :: "table \<Rightarrow> Appointment \<Rightarrow> error + table" where
  "ddb_put tbl item =
     (case (PK item, SK item) of
        (Some pk, Some sk) \<Rightarrow>
          (case ddb_get tbl pk sk of
             None \<Rightarrow> Inr (tbl @ [item])
           | Some old \<Rightarrow> Inl ConditionalCheckFailed)
      | _ \<Rightarrow> Inl ValidationException)"

definition ddb_update :: "table \<Rightarrow> string \<Rightarrow> string \<Rightarrow> (Appointment \<Rightarrow> Appointment) \<Rightarrow> Appointment option \<times> table" where
  "ddb_update tbl pk sk updateExpression =
     (case ddb_get tbl pk sk of
        None \<Rightarrow> (None, tbl)
      | Some old \<Rightarrow>
          (Some (updateExpression old),
           map (\<lambda>item. if has_key pk sk item then updateExpression item else item) tbl))"

definition ddb_delete :: "table \<Rightarrow> string \<Rightarrow> string \<Rightarrow> table" where
  "ddb_delete tbl pk sk = filter (\<lambda>item. \<not> has_key pk sk item) tbl"

definition sort_key_of :: "string option \<Rightarrow> string" where
  "sort_key_of k = (case k of None \<Rightarrow> [] | Some s \<Rightarrow> s)"

definition ddb_query_GSI1 :: "table \<Rightarrow> string \<Rightarrow> Appointment list" where
  "ddb_query_GSI1 tbl k =
     sort_key (\<lambda>item. sort_key_of (GSI1SK item))
       (filter (\<lambda>item. GSI1PK item = Some k \<and> GSI1SK item \<noteq> None) tbl)"

definition ddb_query_GSI2 :: "table \<Rightarrow> string \<Rightarrow> Appointment list" where
  "ddb_query_GSI2 tbl k =
     sort_key (\<lambda>item. sort_key_of (GSI2SK item))
       (filter (\<lambda>item. GSI2PK item = Some k \<and> GSI2SK item \<noteq> None) tbl)"

section \<open>AppointmentService\<close>

text \<open>
  Every operation takes the table and, where it writes, returns the table afterwards. A
  thrown error is \<open>Inl\<close>. The arguments \<open>uuid\<close>, \<open>now\<close> and \<open>nowMs\<close> are what
  \<^verbatim>\<open>uuidv4()\<close>, \<^verbatim>\<open>new Date().toISOString()\<close> and \<^verbatim>\<open>Date.now()\<close> return in the call.
\<close>

definition getAppointment :: "table \<Rightarrow> string \<Rightarrow> string \<Rightarrow> string \<Rightarrow> string \<Rightarrow> error + Appointment option" where
  "getAppointment tbl tenant_id appointment_id user_id userRole =
     (case ddb_get tbl (PK_of tenant_id appointment_id) (SK_of appointment_id) of
        None \<Rightarrow> Inr None
      | Some appointment \<Rightarrow>
          if userRole \<noteq> ''super-admin'' \<and> userId appointment \<noteq> user_id
          then Inl AccessDenied
          else Inr (Some appointment))"

text \<open>A string that is absent or empty is falsy; \<open>present\<close> keeps the others.\<close>

definition present :: "string option \<Rightarrow> string option" where
  "present x = (case x of None \<Rightarrow> None | Some s \<Rightarrow> if s = [] then None else Some s)"

text \<open>
  The filter expression of \<^verbatim>\<open>listAppointments\<close>, one condition for each filter that is
  set. The two date conditions compare the stored \<^verbatim>\<open>startTime\<close> with the string of the
  query; what is stored is not a string, and DynamoDB matches no attribute of another
  type, so a date condition lets no item through.
\<close>

definition passes_filters :: "AppointmentFilters \<Rightarrow> Appointment \<Rightarrow> bool" where
  "passes_filters filters item \<longleftrightarrow>
     (case present (startDate filters) of None \<Rightarrow> True | Some d \<Rightarrow> False)
   \<and> (case present (endDate filters) of None \<Rightarrow> True | Some d \<Rightarrow> False)
   \<and> (case present (AppointmentFilters.status filters) of
         None \<Rightarrow> True
       | Some s \<Rightarrow> status item = s)"

text \<open>
  With no filter set, the query has no filter expression. With one set, the code also
  sends \<^verbatim>\<open>ExpressionAttributeNames = {'#status': 'status'}\<close>, whether the status filter is
  among them or not; DynamoDB refuses a request that names an attribute no expression
  uses, so a query with a date filter and no status filter throws.
\<close>

definition listAppointments ::
  "table \<Rightarrow> string \<Rightarrow> string \<Rightarrow> string \<Rightarrow> AppointmentFilters \<Rightarrow> error + Appointment list" where
  "listAppointments tbl tenant_id user_id userRole filters =
     (let items = (if userRole = ''super-admin''
                   then ddb_query_GSI1 tbl (GSI1PK_of tenant_id)
                   else ddb_query_GSI2 tbl (GSI2PK_of tenant_id user_id))
      in if present (startDate filters) = None \<and> present (endDate filters) = None
            \<and> present (AppointmentFilters.status filters) = None
         then Inr items
         else if present (AppointmentFilters.status filters) = None
         then Inl ValidationException
         else Inr (filter (passes_filters filters) items))"

definition new_appointment :: "string \<Rightarrow> string \<Rightarrow> string \<Rightarrow> createValue \<Rightarrow> datetime \<Rightarrow> int \<Rightarrow> Appointment" where
  "new_appointment uuid tenant_id user_id v now nowMs =
     \<lparr> appointmentId = uuid,
       tenantId = tenant_id,
       userId = user_id,
       title = createValue.title v,
       description = createValue.description v,
       startTime = createValue.startTime v,
       endTime = createValue.endTime v,
       location = createValue.location v,
       attendees = (case createValue.attendees v of None \<Rightarrow> [] | Some xs \<Rightarrow> xs),
       status = createValue.status v,
       reminderMinutes = createValue.reminderMinutes v,
       createdAt = now,
       updatedAt = now,
       ttl = Some (nowMs div 1000 + 365 * 24 * 60 * 60),
       PK = None, SK = None, GSI1PK = None, GSI1SK = None, GSI2PK = None, GSI2SK = None \<rparr>"

definition with_keys :: "string \<Rightarrow> string \<Rightarrow> string \<Rightarrow> datetime \<Rightarrow> Appointment \<Rightarrow> Appointment" where
  "with_keys tenant_id appointment_id user_id start appointment =
     appointment
       \<lparr> PK := Some (PK_of tenant_id appointment_id),
         SK := Some (SK_of appointment_id),
         GSI1PK := Some (GSI1PK_of tenant_id),
         GSI1SK := Some (GSI1SK_of start),
         GSI2PK := Some (GSI2PK_of tenant_id user_id),
         GSI2SK := Some (GSI2SK_of start) \<rparr>"

definition createAppointment ::
  "(string \<Rightarrow> bool) \<Rightarrow> table \<Rightarrow> string \<Rightarrow> string \<Rightarrow> string \<Rightarrow> appointmentData
     \<Rightarrow> string \<Rightarrow> datetime \<Rightarrow> int \<Rightarrow> (error + Appointment) \<times> table" where
  "createAppointment isEmail tbl tenant_id user_id userRole data uuid now nowMs =
     (case appointmentSchema isEmail data of
        None \<Rightarrow> (Inl ValidationError, tbl)
      | Some v \<Rightarrow>
          (let appointment = new_appointment uuid tenant_id user_id v now nowMs;
               item = with_keys tenant_id uuid user_id (createValue.startTime v) appointment
           in case ddb_put tbl item of
                Inl e \<Rightarrow> (Inl e, tbl)
              | Inr tbl' \<Rightarrow> (Inr appointment, tbl')))"

definition set_clauses :: "appointmentData \<Rightarrow> datetime \<Rightarrow> Appointment \<Rightarrow> Appointment" where
  "set_clauses v now item =
     item
       \<lparr> updatedAt := now,
         title := (case appointmentData.title v of None \<Rightarrow> title item | Some x \<Rightarrow> x),
         description := (case appointmentData.description v of None \<Rightarrow> description item | Some x \<Rightarrow> Some x),
         startTime := (case appointmentData.startTime v of None \<Rightarrow> startTime item | Some x \<Rightarrow> x),
         endTime := (case appointmentData.endTime v of None \<Rightarrow> endTime item | Some x \<Rightarrow> x),
         location := (case appointmentData.location v of None \<Rightarrow> location item | Some x \<Rightarrow> Some x),
         attendees := (case appointmentData.attendees v of None \<Rightarrow> attendees item | Some x \<Rightarrow> x),
         status := (case appointmentData.status v of None \<Rightarrow> status item | Some x \<Rightarrow> x),
         reminderMinutes := (case appointmentData.reminderMinutes v of None \<Rightarrow> reminderMinutes item | Some x \<Rightarrow> x) \<rparr>"

definition updateAppointment ::
  "(string \<Rightarrow> bool) \<Rightarrow> table \<Rightarrow> string \<Rightarrow> string \<Rightarrow> string \<Rightarrow> string \<Rightarrow> appointmentData
     \<Rightarrow> datetime \<Rightarrow> (error + Appointment option) \<times> table" where
  "updateAppointment isEmail tbl tenant_id appointment_id user_id userRole updateData now =
     (case updateAppointmentSchema isEmail updateData of
        None \<Rightarrow> (Inl ValidationError, tbl)
      | Some v \<Rightarrow>
          (case getAppointment tbl tenant_id appointment_id user_id userRole of
             Inl e \<Rightarrow> (Inl e, tbl)
           | Inr None \<Rightarrow> (Inr None, tbl)
           | Inr (Some existingAppointment) \<Rightarrow>
               if userRole \<noteq> ''super-admin'' \<and> userId existingAppointment \<noteq> user_id
               then (Inl AccessDenied, tbl)
               else (case ddb_update tbl (PK_of tenant_id appointment_id) (SK_of appointment_id)
                            (set_clauses v now) of
                       (attributes, tbl') \<Rightarrow> (Inr attributes, tbl'))))"

definition deleteAppointment ::
  "table \<Rightarrow> string \<Rightarrow> string \<Rightarrow> string \<Rightarrow> string \<Rightarrow> (error + bool) \<times> table" where
  "deleteAppointment tbl tenant_id appointment_id user_id userRole =
     (case getAppointment tbl tenant_id appointment_id user_id userRole of
        Inl e \<Rightarrow> (Inl e, tbl)
      | Inr None \<Rightarrow> (Inr False, tbl)
      | Inr (Some existingAppointment) \<Rightarrow>
          if userRole \<noteq> ''super-admin'' \<and> userId existingAppointment \<noteq> user_id
          then (Inl AccessDenied, tbl)
          else (Inr True, ddb_delete tbl (PK_of tenant_id appointment_id) (SK_of appointment_id)))"

section \<open>AuthService\<close>

text \<open>
  \<^verbatim>\<open>jwt.decode\<close> is a parameter, \<open>jwt_decode\<close>: the payload of a token, or \<open>None\<close> for a
  string that is no token. Of the payload, the service reads \<^verbatim>\<open>sub\<close>, \<^verbatim>\<open>cognito:groups\<close>,
  \<^verbatim>\<open>custom:tenant_id\<close> and \<^verbatim>\<open>exp\<close>; a claim that is absent is \<open>None\<close>.
\<close>

record jwtPayload =
  sub :: string
  cognito_groups :: "string list option"
  custom_tenant_id :: "string option"
  exp :: "int option"

text \<open>
  An \<^verbatim>\<open>AuthResult\<close> is \<^verbatim>\<open>{isValid: false, error}\<close> or
  \<^verbatim>\<open>{isValid: true, userId, tenantId, role}\<close>.
\<close>

datatype AuthResult = Invalid string | Valid string string string

record APIGatewayProxyEvent =
  httpMethod :: string
  path_tenantId :: "string option"
  path_appointmentId :: "string option"
  header_Authorization :: "string option"
  header_authorization :: "string option"
  queryStringParameters :: "AppointmentFilters option"
  body :: "string option"

text \<open>\<^verbatim>\<open>String.prototype.replace\<close> with a string pattern: the first occurrence only.\<close>

fun replace :: "string \<Rightarrow> string \<Rightarrow> string \<Rightarrow> string" where
  "replace pat rep [] = (if pat = [] then rep else [])"
| "replace pat rep (c # cs) =
     (if take (length pat) (c # cs) = pat then rep @ drop (length pat) (c # cs)
      else c # replace pat rep cs)"

definition verifyToken :: "(string \<Rightarrow> jwtPayload option) \<Rightarrow> int \<Rightarrow> string \<Rightarrow> jwtPayload option" where
  "verifyToken jwt_decode nowMs token =
     (case jwt_decode token of
        None \<Rightarrow> None
      | Some payload \<Rightarrow>
          (let now = nowMs div 1000
           in if (case exp payload of None \<Rightarrow> False | Some e \<Rightarrow> e \<noteq> 0 \<and> e < now)
              then None else Some payload))"

definition hasTenantAccess :: "string list \<Rightarrow> string option \<Rightarrow> string \<Rightarrow> bool" where
  "hasTenantAccess userGroups userTenantId requestedTenantId =
     (if ''super-admin'' \<in> set userGroups then True
      else if ''tenant-admin'' \<in> set userGroups \<or> ''tenant-user'' \<in> set userGroups
           then userTenantId = Some requestedTenantId
      else False)"

definition determineUserRole :: "string list \<Rightarrow> string" where
  "determineUserRole userGroups =
     (if ''super-admin'' \<in> set userGroups then ''super-admin''
      else if ''tenant-admin'' \<in> set userGroups then ''tenant-admin''
      else if ''tenant-user'' \<in> set userGroups then ''tenant-user''
      else ''tenant-user'')"

definition header_of :: "APIGatewayProxyEvent \<Rightarrow> string option" where
  "header_of event =
     (case present (header_Authorization event) of
        None \<Rightarrow> present (header_authorization event)
      | Some h \<Rightarrow> Some h)"

definition validateRequest ::
  "(string \<Rightarrow> jwtPayload option) \<Rightarrow> int \<Rightarrow> APIGatewayProxyEvent \<Rightarrow> string \<Rightarrow> AuthResult" where
  "validateRequest jwt_decode nowMs event requestedTenantId =
     (case header_of event of
        None \<Rightarrow> Invalid ''Authorization header is required''
      | Some authHeader \<Rightarrow>
          (let token = replace ''Bearer '' [] authHeader
           in if token = [] then Invalid ''Bearer token is required''
              else (case verifyToken jwt_decode nowMs token of
                      None \<Rightarrow> Invalid ''Invalid token''
                    | Some decodedToken \<Rightarrow>
                        (let user_id = sub decodedToken;
                             userGroups = (case cognito_groups decodedToken of None \<Rightarrow> [] | Some gs \<Rightarrow> gs);
                             userTenantId = custom_tenant_id decodedToken
                         in if \<not> hasTenantAccess userGroups userTenantId requestedTenantId
                            then Invalid ''Access denied to tenant''
                            else Valid user_id requestedTenantId (determineUserRole userGroups)))))"

section \<open>The handler\<close>

text \<open>
  The Lambda handler and its five routes. \<^verbatim>\<open>JSON.parse\<close> is a parameter, \<open>JSON_parse\<close>:
  a syntax error, a value that is not an object of the eight keys with values of their
  types (which both schemas refuse), or the parsed object. A response is its status code
  and its body before \<^verbatim>\<open>JSON.stringify\<close>.
\<close>

datatype parsed = SyntaxError | IllShaped | Shaped appointmentData

datatype responseData =
    AppointmentResponse Appointment
  | ListResponse "Appointment list" nat
  | MessageResponse string

datatype responseBody = Success responseData | Failure string "string option"

record APIGatewayProxyResult =
  statusCode :: nat
  result_body :: responseBody

definition success :: "nat \<Rightarrow> responseData \<Rightarrow> APIGatewayProxyResult" where
  "success code data = \<lparr> statusCode = code, result_body = Success data \<rparr>"

definition failure :: "nat \<Rightarrow> string \<Rightarrow> string option \<Rightarrow> APIGatewayProxyResult" where
  "failure code message details = \<lparr> statusCode = code, result_body = Failure message details \<rparr>"

definition handle_getAppointment ::
  "table \<Rightarrow> string \<Rightarrow> string \<Rightarrow> string \<Rightarrow> string \<Rightarrow> APIGatewayProxyResult" where
  "handle_getAppointment tbl tenant_id appointment_id user_id userRole =
     (case getAppointment tbl tenant_id appointment_id user_id userRole of
        Inl e \<Rightarrow> failure 500 ''Failed to retrieve appointment'' None
      | Inr None \<Rightarrow> failure 404 ''Appointment not found'' None
      | Inr (Some appointment) \<Rightarrow> success 200 (AppointmentResponse appointment))"

definition handle_listAppointments ::
  "table \<Rightarrow> string \<Rightarrow> string \<Rightarrow> string \<Rightarrow> AppointmentFilters option \<Rightarrow> APIGatewayProxyResult" where
  "handle_listAppointments tbl tenant_id user_id userRole queryParams =
     (let filters = (case queryParams of
                       None \<Rightarrow> \<lparr> startDate = None, endDate = None, status = None, userId = None \<rparr>
                     | Some q \<Rightarrow> q)
      in case listAppointments tbl tenant_id user_id userRole filters of
           Inl e \<Rightarrow> failure 500 ''Failed to retrieve appointments'' None
         | Inr appointments \<Rightarrow> success 200 (ListResponse appointments (length appointments)))"

definition handle_createAppointment ::
  "(string \<Rightarrow> parsed) \<Rightarrow> (string \<Rightarrow> bool) \<Rightarrow> table \<Rightarrow> string \<Rightarrow> string \<Rightarrow> string
     \<Rightarrow> string option \<Rightarrow> string \<Rightarrow> datetime \<Rightarrow> int \<Rightarrow> APIGatewayProxyResult \<times> table" where
  "handle_createAppointment JSON_parse isEmail tbl tenant_id user_id userRole request_body uuid now nowMs =
     (case present request_body of
        None \<Rightarrow> (failure 400 ''Request body is required'' None, tbl)
      | Some b \<Rightarrow>
          (case JSON_parse b of
             SyntaxError \<Rightarrow> (failure 400 ''Invalid JSON in request body'' None, tbl)
           | IllShaped \<Rightarrow> (failure 500 ''Failed to create appointment'' None, tbl)
           | Shaped appointmentData \<Rightarrow>
               (case createAppointment isEmail tbl tenant_id user_id userRole appointmentData uuid now nowMs of
                  (Inl e, tbl') \<Rightarrow> (failure 500 ''Failed to create appointment'' None, tbl')
                | (Inr appointment, tbl') \<Rightarrow> (success 201 (AppointmentResponse appointment), tbl'))))"

definition handle_updateAppointment ::
  "(string \<Rightarrow> parsed) \<Rightarrow> (string \<Rightarrow> bool) \<Rightarrow> table \<Rightarrow> string \<Rightarrow> string \<Rightarrow> string \<Rightarrow> string
     \<Rightarrow> string option \<Rightarrow> datetime \<Rightarrow> APIGatewayProxyResult \<times> table" where
  "handle_updateAppointment JSON_parse isEmail tbl tenant_id appointment_id user_id userRole request_body now =
     (case present request_body of
        None \<Rightarrow> (failure 400 ''Request body is required'' None, tbl)
      | Some b \<Rightarrow>
          (case JSON_parse b of
             SyntaxError \<Rightarrow> (failure 400 ''Invalid JSON in request body'' None, tbl)
           | IllShaped \<Rightarrow> (failure 500 ''Failed to update appointment'' None, tbl)
           | Shaped updateData \<Rightarrow>
               (case updateAppointment isEmail tbl tenant_id appointment_id user_id userRole updateData now of
                  (Inl e, tbl') \<Rightarrow> (failure 500 ''Failed to update appointment'' None, tbl')
                | (Inr None, tbl') \<Rightarrow> (failure 404 ''Appointment not found'' None, tbl')
                | (Inr (Some appointment), tbl') \<Rightarrow> (success 200 (AppointmentResponse appointment), tbl'))))"

definition handle_deleteAppointment ::
  "table \<Rightarrow> string \<Rightarrow> string \<Rightarrow> string \<Rightarrow> string \<Rightarrow> APIGatewayProxyResult \<times> table" where
  "handle_deleteAppointment tbl tenant_id appointment_id user_id userRole =
     (case deleteAppointment tbl tenant_id appointment_id user_id userRole of
        (Inl e, tbl') \<Rightarrow> (failure 500 ''Failed to delete appointment'' None, tbl')
      | (Inr deleted, tbl') \<Rightarrow>
          if \<not> deleted then (failure 404 ''Appointment not found'' None, tbl')
          else (success 200 (MessageResponse ''Appointment deleted successfully''), tbl'))"

definition handler ::
  "(string \<Rightarrow> jwtPayload option) \<Rightarrow> (string \<Rightarrow> parsed) \<Rightarrow> (string \<Rightarrow> bool) \<Rightarrow> table
     \<Rightarrow> APIGatewayProxyEvent \<Rightarrow> int \<Rightarrow> string \<Rightarrow> datetime \<Rightarrow> int \<Rightarrow> APIGatewayProxyResult \<times> table" where
  "handler jwt_decode JSON_parse isEmail tbl event authNowMs uuid now nowMs =
     (case present (path_tenantId event) of
        None \<Rightarrow> (failure 400 ''Tenant ID is required'' None, tbl)
      | Some tenant_id \<Rightarrow>
          (case validateRequest jwt_decode authNowMs event tenant_id of
             Invalid err \<Rightarrow> (failure 401 ''Unauthorized'' (Some err), tbl)
           | Valid user_id auth_tenant userRole \<Rightarrow>
               if httpMethod event = ''GET'' then
                 (case present (path_appointmentId event) of
                    Some appointment_id \<Rightarrow>
                      (handle_getAppointment tbl tenant_id appointment_id user_id userRole, tbl)
                  | None \<Rightarrow>
                      (handle_listAppointments tbl tenant_id user_id userRole (queryStringParameters event), tbl))
               else if httpMethod event = ''POST'' then
                 handle_createAppointment JSON_parse isEmail tbl tenant_id user_id userRole (body event) uuid now nowMs
               else if httpMethod event = ''PUT'' then
                 (case present (path_appointmentId event) of
                    None \<Rightarrow> (failure 400 ''Appointment ID is required for updates'' None, tbl)
                  | Some appointment_id \<Rightarrow>
                      handle_updateAppointment JSON_parse isEmail tbl tenant_id appointment_id user_id userRole (body event) now)
               else if httpMethod event = ''DELETE'' then
                 (case present (path_appointmentId event) of
                    None \<Rightarrow> (failure 400 ''Appointment ID is required for deletion'' None, tbl)
                  | Some appointment_id \<Rightarrow>
                      handle_deleteAppointment tbl tenant_id appointment_id user_id userRole)
               else (failure 405 ''Method not allowed'' None, tbl)))"

section \<open>Example requests\<close>

definition no_filters :: AppointmentFilters where
  "no_filters = \<lparr> startDate = None, endDate = None, status = None, userId = None \<rparr>"

definition empty_patch :: appointmentData where
  "empty_patch =
     \<lparr> appointmentData.title = None, description = None, startTime = None, endTime = None,
       location = None, attendees = None, status = None, reminderMinutes = None \<rparr>"

definition at_0900 :: datetime where
  "at_0900 = \<lparr> year = 2024, month = 6, day = 1, hour = 9, minute = 0, second = 0, millisecond = 0 \<rparr>"

definition at_1000 :: datetime where
  "at_1000 = \<lparr> year = 2024, month = 6, day = 1, hour = 10, minute = 0, second = 0, millisecond = 0 \<rparr>"

definition at_1030 :: datetime where
  "at_1030 = \<lparr> year = 2024, month = 6, day = 1, hour = 10, minute = 30, second = 0, millisecond = 0 \<rparr>"

definition created_at :: datetime where
  "created_at = \<lparr> year = 2024, month = 5, day = 20, hour = 8, minute = 15, second = 0, millisecond = 250 \<rparr>"

definition updated_at :: datetime where
  "updated_at = \<lparr> year = 2024, month = 5, day = 21, hour = 8, minute = 15, second = 0, millisecond = 0 \<rparr>"

definition last_second_of_9999 :: datetime where
  "last_second_of_9999 =
     \<lparr> year = 9999, month = 12, day = 31, hour = 23, minute = 59, second = 59, millisecond = 0 \<rparr>"

definition first_second_of_10000 :: datetime where
  "first_second_of_10000 =
     \<lparr> year = 10000, month = 1, day = 1, hour = 0, minute = 0, second = 0, millisecond = 0 \<rparr>"

definition any_email :: "string \<Rightarrow> bool" where
  "any_email s = True"

text \<open>The request of the spec's scenario: \<^verbatim>\<open>{title: "Sync", startTime: 10:00, endTime: 10:30}\<close>.\<close>

definition sync_data :: appointmentData where
  "sync_data = empty_patch \<lparr> appointmentData.title := Some ''Sync'',
                             appointmentData.startTime := Some at_1000,
                             appointmentData.endTime := Some at_1030 \<rparr>"

definition sync_created :: "string \<Rightarrow> string \<Rightarrow> Appointment" where
  "sync_created tenant_id user_id =
     \<lparr> appointmentId = ''a-1'', tenantId = tenant_id, userId = user_id, title = ''Sync'',
       description = None, startTime = at_1000, endTime = at_1030, location = None,
       attendees = [], status = ''scheduled'', reminderMinutes = 60,
       createdAt = created_at, updatedAt = created_at, ttl = Some 31536000,
       PK = None, SK = None, GSI1PK = None, GSI1SK = None, GSI2PK = None, GSI2SK = None \<rparr>"

definition sync_item :: "string \<Rightarrow> string \<Rightarrow> Appointment" where
  "sync_item tenant_id user_id =
     sync_created tenant_id user_id
       \<lparr> PK := Some (''TENANT#'' @ tenant_id @ ''#APPOINTMENT#a-1''),
         SK := Some ''APPOINTMENT#a-1'',
         GSI1PK := Some (''TENANT#'' @ tenant_id),
         GSI1SK := Some ''DATE#2024-06-01#TIME#10:00:00'',
         GSI2PK := Some (''TENANT#'' @ tenant_id @ ''#USER#'' @ user_id),
         GSI2SK := Some ''DATE#2024-06-01#TIME#10:00:00'' \<rparr>"

text \<open>
  The table after the scenario's create by user \<^verbatim>\<open>u1\<close> of tenant \<^verbatim>\<open>t1\<close>, and the table
  after the same create by user \<^verbatim>\<open>u#USER#v\<close> of tenant \<^verbatim>\<open>t\<close>.
\<close>

definition sync_table :: table where
  "sync_table =
     snd (createAppointment any_email [] ''t1'' ''u1'' ''tenant-user'' sync_data ''a-1'' created_at 0)"

definition separator_table :: table where
  "separator_table =
     snd (createAppointment any_email [] ''t'' ''u#USER#v'' ''tenant-user'' sync_data ''a-1'' created_at 0)"

definition no_groups_token :: jwtPayload where
  "no_groups_token =
     \<lparr> sub = ''u1'', cognito_groups = Some [''guests''], custom_tenant_id = Some ''t1'', exp = None \<rparr>"

definition no_groups_event :: APIGatewayProxyEvent where
  "no_groups_event =
     \<lparr> httpMethod = ''POST'', path_tenantId = Some ''t1'', path_appointmentId = None,
       header_Authorization = Some ''Bearer abc'', header_authorization = None,
       queryStringParameters = None, body = Some ''{}'' \<rparr>"

definition decode_abc :: "string \<Rightarrow> jwtPayload option" where
  "decode_abc token = (if token = ''abc'' then Some no_groups_token else None)"

definition parse_sync :: "string \<Rightarrow> parsed" where
  "parse_sync b = Shaped sync_data"

text \<open>Patches for the appointment of the scenario, and a request whose end is before its start.\<close>

definition confirm_patch :: appointmentData where
  "confirm_patch = empty_patch \<lparr> appointmentData.status := Some ''confirmed'' \<rparr>"

definition end_0900_patch :: appointmentData where
  "end_0900_patch = empty_patch \<lparr> appointmentData.endTime := Some at_0900 \<rparr>"

definition start_0900_patch :: appointmentData where
  "start_0900_patch = empty_patch \<lparr> appointmentData.startTime := Some at_0900 \<rparr>"

definition backwards_data :: appointmentData where
  "backwards_data = sync_data \<lparr> appointmentData.endTime := Some at_0900 \<rparr>"

definition sync_item_end_0900 :: Appointment where
  "sync_item_end_0900 = sync_item ''t1'' ''u1'' \<lparr> endTime := at_0900, updatedAt := updated_at \<rparr>"

definition sync_item_start_0900 :: Appointment where
  "sync_item_start_0900 = sync_item ''t1'' ''u1'' \<lparr> startTime := at_0900, updatedAt := updated_at \<rparr>"

section \<open>The key codec is injective\<close>

text \<open>
  Claim C4. The primary key determines the tenant and the appointment: two pairs
  \<open>(tenantId, appointmentId)\<close> with the same \<open>(PK, SK)\<close> are the same pair. This holds of
  all strings, also of identifiers that contain the separator \<^verbatim>\<open>#\<close>: SK gives the
  appointment, and PK without its known ends gives the tenant.
\<close>

theorem primaryKey_injective:
  "primaryKey t a = primaryKey t' a' \<longleftrightarrow> t = t' \<and> a = a'"
  by (auto simp: primaryKey_def PK_of_def SK_of_def)

text \<open>
  Two tenants with one appointment identifier have different keys; and where the
  identifiers carry the separator so that the PK strings coincide, SK tells them apart.
\<close>

theorem primaryKey_injective_witness:
  "primaryKey ''t1'' ''a-1'' \<noteq> primaryKey ''t2'' ''a-1''
   \<and> PK_of ''x'' ''y#APPOINTMENT#z'' = PK_of ''x#APPOINTMENT#y'' ''z''
   \<and> primaryKey ''x'' ''y#APPOINTMENT#z'' \<noteq> primaryKey ''x#APPOINTMENT#y'' ''z''"
  using primaryKey_injective [of "''t1''" "''a-1''" "''t2''" "''a-1''"]
        primaryKey_injective [of "''x''" "''y#APPOINTMENT#z''" "''x#APPOINTMENT#y''" "''z''"]
  by (simp add: PK_of_def)

section \<open>The sort key of the indexes and the order of start times\<close>

subsection \<open>Digits in a fixed number of places\<close>

lemma length_fixed: "length (fixed k n) = k"
  by (induction k arbitrary: n) auto

lemma of_char_digit: "d < 10 \<Longrightarrow> of_char (digit d) = 48 + d"
proof -
  assume "d < 10"
  then have "d \<in> {0,1,2,3,4,5,6,7,8,9}" by auto
  then show ?thesis by (auto simp: digit_def)
qed

lemma digit_less: "d < 10 \<Longrightarrow> e < 10 \<Longrightarrow> digit d < digit e \<longleftrightarrow> d < e"
  by (simp add: less_char_def of_char_digit)

lemma digit_eq: "d < 10 \<Longrightarrow> e < 10 \<Longrightarrow> digit d = digit e \<longleftrightarrow> d = e"
  by (metis of_char_digit add_left_cancel)

lemma app_less_same_length:
  "length xs = length ys \<Longrightarrow> xs @ us < ys @ vs \<longleftrightarrow> xs < ys \<or> (xs = ys \<and> us < vs)"
  for xs :: "'a::linorder list"
  by (induction xs ys rule: list_induct2) auto

lemma app_le_same_length:
  "length xs = length ys \<Longrightarrow> xs @ us \<le> ys @ vs \<longleftrightarrow> xs < ys \<or> (xs = ys \<and> us \<le> vs)"
  for xs :: "'a::linorder list"
  by (induction xs ys rule: list_induct2) auto

lemma lex_div_mod:
  "(m div 10 < n div 10 \<or> (m div 10 = n div 10 \<and> m mod 10 < n mod 10)) \<longleftrightarrow> m < (n::nat)"
proof -
  have aux: "(a < c \<or> (a = c \<and> b < d)) \<longleftrightarrow> 10 * a + b < 10 * c + d"
    if "b < 10" "d < 10" for a b c d :: nat
    using that by arith
  have "(m div 10 < n div 10 \<or> (m div 10 = n div 10 \<and> m mod 10 < n mod 10))
        \<longleftrightarrow> 10 * (m div 10) + m mod 10 < 10 * (n div 10) + n mod 10"
    by (rule aux) simp_all
  then show ?thesis by simp
qed

lemma fixed_eq: "m < 10 ^ k \<Longrightarrow> n < 10 ^ k \<Longrightarrow> fixed k m = fixed k n \<longleftrightarrow> m = n"
proof (induction k arbitrary: m n)
  case 0
  then show ?case by simp
next
  case (Suc k)
  have m: "m div 10 < 10 ^ k" and n: "n div 10 < 10 ^ k"
    using Suc.prems by (simp_all add: less_mult_imp_div_less mult.commute)
  have "fixed (Suc k) m = fixed (Suc k) n \<longleftrightarrow> m div 10 = n div 10 \<and> m mod 10 = n mod 10"
    by (simp add: length_fixed Suc.IH [OF m n] digit_eq)
  also have "\<dots> \<longleftrightarrow> m = n"
    by (metis div_mult_mod_eq)
  finally show ?case .
qed

lemma fixed_less: "m < 10 ^ k \<Longrightarrow> n < 10 ^ k \<Longrightarrow> fixed k m < fixed k n \<longleftrightarrow> m < n"
proof (induction k arbitrary: m n)
  case 0
  then show ?case by simp
next
  case (Suc k)
  have m: "m div 10 < 10 ^ k" and n: "n div 10 < 10 ^ k"
    using Suc.prems by (simp_all add: less_mult_imp_div_less mult.commute)
  have len: "length (fixed k (m div 10)) = length (fixed k (n div 10))"
    by (simp add: length_fixed)
  have "fixed (Suc k) m < fixed (Suc k) n \<longleftrightarrow>
          fixed k (m div 10) < fixed k (n div 10)
          \<or> (fixed k (m div 10) = fixed k (n div 10) \<and> [digit (m mod 10)] < [digit (n mod 10)])"
    unfolding fixed.simps by (rule app_less_same_length [OF len])
  also have "\<dots> \<longleftrightarrow> m div 10 < n div 10 \<or> (m div 10 = n div 10 \<and> m mod 10 < n mod 10)"
    by (simp add: Suc.IH [OF m n] fixed_eq [OF m n] digit_less)
  also have "\<dots> \<longleftrightarrow> m < n"
    by (rule lex_div_mod)
  finally show ?case .
qed

lemma length_decimal: "n < 10 ^ k \<Longrightarrow> 0 < k \<Longrightarrow> length (decimal n) \<le> k"
proof (induction k arbitrary: n)
  case 0
  then show ?case by simp
next
  case (Suc k)
  show ?case
  proof (cases "n < 10")
    case True
    then show ?thesis by (subst decimal.simps) simp
  next
    case False
    then have "0 < k" using Suc.prems by (cases k) auto
    moreover have "n div 10 < 10 ^ k"
      using Suc.prems by (simp add: less_mult_imp_div_less mult.commute)
    ultimately have "length (decimal (n div 10)) \<le> k" by (rule Suc.IH [rotated])
    with False show ?thesis by (subst decimal.simps) simp
  qed
qed

lemma fixed_small: "n < 10 \<Longrightarrow> fixed (Suc k) n = replicate k CHR ''0'' @ [digit n]"
proof (induction k arbitrary: n)
  case 0
  then show ?case by simp
next
  case (Suc k)
  have "fixed (Suc (Suc k)) n = fixed (Suc k) 0 @ [digit n]"
    using Suc.prems by simp
  also have "fixed (Suc k) 0 = replicate k CHR ''0'' @ [digit 0]"
    by (rule Suc.IH) simp
  also have "\<dots> = replicate (Suc k) CHR ''0''"
    by (simp add: digit_def replicate_append_same)
  finally show ?case by simp
qed

lemma decimal_fixed:
  "n < 10 ^ k \<Longrightarrow> 0 < k \<Longrightarrow> replicate (k - length (decimal n)) CHR ''0'' @ decimal n = fixed k n"
proof (induction k arbitrary: n)
  case 0
  then show ?case by simp
next
  case (Suc k)
  show ?case
  proof (cases "n < 10")
    case True
    then have "decimal n = [digit n]" by (subst decimal.simps) simp
    with True show ?thesis by (simp add: fixed_small del: fixed.simps)
  next
    case False
    then have k: "0 < k" using Suc.prems by (cases k) auto
    have d: "n div 10 < 10 ^ k"
      using Suc.prems by (simp add: less_mult_imp_div_less mult.commute)
    have len: "length (decimal (n div 10)) \<le> k" by (rule length_decimal [OF d k])
    have dec: "decimal n = decimal (n div 10) @ [digit (n mod 10)]"
      using False by (subst decimal.simps) simp
    have "replicate (Suc k - length (decimal n)) CHR ''0'' @ decimal n
          = (replicate (k - length (decimal (n div 10))) CHR ''0'' @ decimal (n div 10)) @ [digit (n mod 10)]"
      by (simp add: dec)
    also have "\<dots> = fixed k (n div 10) @ [digit (n mod 10)]"
      by (simp only: Suc.IH [OF d k])
    finally show ?thesis by simp
  qed
qed

lemma zeroFill_fixed:
  "0 \<le> i \<Longrightarrow> nat i < 10 ^ k \<Longrightarrow> 0 < k \<Longrightarrow> zeroFill i k False = fixed k (nat i)"
  using decimal_fixed [of "nat i" k] length_decimal [of "nat i" k]
  by (simp add: zeroFill_def Let_def nat_diff_distrib' max_def)

subsection \<open>The sort key compares as the calendar fields do\<close>

lemma GSI1SK_fixed:
  assumes "valid_datetime a" "0 \<le> year a" "year a \<le> 9999"
  shows "GSI1SK_of a = ''DATE#'' @ fixed 4 (nat (year a)) @ ''-'' @ fixed 2 (month a) @ ''-'' @ fixed 2 (day a)
           @ ''#TIME#'' @ fixed 2 (hour a) @ '':'' @ fixed 2 (minute a) @ '':'' @ fixed 2 (second a)"
  using assms
  by (simp add: GSI1SK_of_def format_YYYY_MM_DD_def format_HH_mm_ss_def valid_datetime_def
        zeroFill_fixed del: fixed.simps)

lemma GSI1SK_le_iff:
  assumes "valid_datetime a" "0 \<le> year a" "year a \<le> 9999"
      and "valid_datetime b" "0 \<le> year b" "year b \<le> 9999"
  shows "GSI1SK_of a \<le> GSI1SK_of b \<longleftrightarrow>
     year a < year b \<or> (year a = year b \<and>
    (month a < month b \<or> (month a = month b \<and>
    (day a < day b \<or> (day a = day b \<and>
    (hour a < hour b \<or> (hour a = hour b \<and>
    (minute a < minute b \<or> (minute a = minute b \<and>
     second a \<le> second b)))))))))"
proof -
  have b2: "month a < 10 ^ 2" "day a < 10 ^ 2" "hour a < 10 ^ 2" "minute a < 10 ^ 2" "second a < 10 ^ 2"
           "month b < 10 ^ 2" "day b < 10 ^ 2" "hour b < 10 ^ 2" "minute b < 10 ^ 2" "second b < 10 ^ 2"
    using assms by (simp_all add: valid_datetime_def)
  have b4: "nat (year a) < 10 ^ 4" "nat (year b) < 10 ^ 4"
    using assms by simp_all
  have yl: "nat (year a) < nat (year b) \<longleftrightarrow> year a < year b"
   and ye: "nat (year a) = nat (year b) \<longleftrightarrow> year a = year b"
    using assms by auto
  note less = fixed_less [OF b4] fixed_less [OF b2(1) b2(6)] fixed_less [OF b2(2) b2(7)]
    fixed_less [OF b2(3) b2(8)] fixed_less [OF b2(4) b2(9)] fixed_less [OF b2(5) b2(10)]
  note eq = fixed_eq [OF b4] fixed_eq [OF b2(1) b2(6)] fixed_eq [OF b2(2) b2(7)]
    fixed_eq [OF b2(3) b2(8)] fixed_eq [OF b2(4) b2(9)] fixed_eq [OF b2(5) b2(10)]
  show ?thesis
    unfolding GSI1SK_fixed [OF assms(1-3)] GSI1SK_fixed [OF assms(4-6)]
    by (simp add: app_le_same_length app_less_same_length length_fixed less eq yl ye
          order.order_iff_strict del: fixed.simps)
       (use assms(2,5) in auto)
qed

lemma GSI1SK_last_second_of_9999:
  "GSI1SK_of last_second_of_9999 = ''DATE#9999-12-31#TIME#23:59:59''"
  by (simp add: GSI1SK_of_def format_YYYY_MM_DD_def format_HH_mm_ss_def zeroFill_def
        last_second_of_9999_def decimal.simps digit_def)

lemma GSI1SK_first_second_of_10000:
  "GSI1SK_of first_second_of_10000 = ''DATE#10000-01-01#TIME#00:00:00''"
  by (simp add: GSI1SK_of_def format_YYYY_MM_DD_def format_HH_mm_ss_def zeroFill_def
        first_second_of_10000_def decimal.simps digit_def)

text \<open>
  Claim C9, as stated, fails: \<^verbatim>\<open>YYYY\<close> pads a year to four places and does not cut a
  longer one, so the key of the first second of the year 10000 starts with \<^verbatim>\<open>DATE#1\<close>
  and sorts before the key of the last second of 9999, which starts with \<^verbatim>\<open>DATE#9\<close>.
\<close>

theorem GSI1SK_not_monotone_year_10000:
  "valid_datetime last_second_of_9999 \<and> valid_datetime first_second_of_10000
   \<and> earlier last_second_of_9999 first_second_of_10000
   \<and> \<not> GSI1SK_of last_second_of_9999 \<le> GSI1SK_of first_second_of_10000"
  unfolding GSI1SK_last_second_of_9999 GSI1SK_first_second_of_10000
  by (simp add: valid_datetime_def earlier_def last_second_of_9999_def first_second_of_10000_def)

text \<open>
  Claim C9, amended: for start times in the years 0 to 9999, the sort key of the tenant
  index is monotone. If one start time is earlier than the other, its \<open>GSI1SK\<close> is
  lexicographically less than or equal to the other's (equal when the two differ by
  milliseconds only).
\<close>

theorem GSI1SK_monotone:
  assumes "valid_datetime a" "0 \<le> year a" "year a \<le> 9999"
      and "valid_datetime b" "0 \<le> year b" "year b \<le> 9999"
      and "earlier a b"
  shows "GSI1SK_of a \<le> GSI1SK_of b"
  using assms(7) unfolding GSI1SK_le_iff [OF assms(1-6)] earlier_def
  by auto

theorem GSI1SK_monotone_witness:
  "valid_datetime at_1000 \<and> valid_datetime at_1030 \<and> earlier at_1000 at_1030
   \<and> GSI1SK_of at_1000 = ''DATE#2024-06-01#TIME#10:00:00''
   \<and> GSI1SK_of at_1030 = ''DATE#2024-06-01#TIME#10:30:00''
   \<and> GSI1SK_of at_1000 \<le> GSI1SK_of at_1030"
  using GSI1SK_monotone [of at_1000 at_1030]
  by (simp add: valid_datetime_def earlier_def at_1000_def at_1030_def GSI1SK_of_def
        format_YYYY_MM_DD_def format_HH_mm_ss_def zeroFill_def decimal.simps digit_def)

section \<open>The scenario\<close>

lemmas eval_keys = PK_of_def SK_of_def GSI1PK_of_def GSI2PK_of_def

lemmas eval_sort_key = GSI1SK_of_def GSI2SK_of_def format_YYYY_MM_DD_def format_HH_mm_ss_def
  zeroFill_def decimal.simps digit_def

lemmas eval_sync = sync_item_def sync_created_def

lemmas eval_schema = updateAppointmentSchema_def optional_def string_min_max_def valid_status_def
  valid_reminderMinutes_def key_count_def empty_patch_def

lemma set_clauses_ids [simp]:
  "appointmentId (set_clauses v now item) = appointmentId item"
  "tenantId (set_clauses v now item) = tenantId item"
  "userId (set_clauses v now item) = userId item"
  "PK (set_clauses v now item) = PK item"
  "SK (set_clauses v now item) = SK item"
  "GSI1PK (set_clauses v now item) = GSI1PK item"
  "GSI1SK (set_clauses v now item) = GSI1SK item"
  "GSI2PK (set_clauses v now item) = GSI2PK item"
  "GSI2SK (set_clauses v now item) = GSI2SK item"
  by (simp_all add: set_clauses_def)

lemma updateAppointment_table:
  "updateAppointment isEmail tbl t a u r d now = (res, tbl') \<Longrightarrow>
   tbl' = tbl \<or> (\<exists>v. tbl' = map (\<lambda>item. if has_key (PK_of t a) (SK_of a) item then set_clauses v now item else item) tbl)"
  by (auto simp: updateAppointment_def ddb_update_def split: option.splits sum.splits if_splits)

text \<open>The scenario: creating the appointment \<^verbatim>\<open>Sync\<close> in the empty table, and reading it.\<close>

lemma create_sync:
  "createAppointment any_email [] t u r sync_data ''a-1'' created_at 0 = (Inr (sync_created t u), [sync_item t u])"
  by (simp add: createAppointment_def appointmentSchema_def sync_data_def empty_patch_def
        optional_def string_min_max_def earlier_def at_1000_def at_1030_def
        new_appointment_def with_keys_def ddb_put_def ddb_get_def
        eval_sync eval_keys eval_sort_key)

lemma get_sync: "ddb_get [sync_item t u] (PK_of t ''a-1'') (SK_of ''a-1'') = Some (sync_item t u)"
  by (simp add: ddb_get_def has_key_def eval_keys eval_sync)

lemma confirm_patch_ok: "updateAppointmentSchema isEmail confirm_patch = Some confirm_patch"
  by (simp add: eval_schema confirm_patch_def)

section \<open>Isolation of tenants\<close>

text \<open>
  Claim C1 does not hold of the code: a list call of a user of one tenant returns a
  record of another tenant. The partition key of the user index is the plain
  concatenation \<^verbatim>\<open>TENANT#<tenant>#USER#<user>\<close>, so tenant \<^verbatim>\<open>t\<close> with user \<^verbatim>\<open>u#USER#v\<close>
  and tenant \<^verbatim>\<open>t#USER#u\<close> with user \<^verbatim>\<open>v\<close> have one key. User \<^verbatim>\<open>v\<close> has the role
  \<^verbatim>\<open>tenant-user\<close> and access to tenant \<^verbatim>\<open>t#USER#u\<close> and not to tenant \<^verbatim>\<open>t\<close>; the list
  call of \<^verbatim>\<open>v\<close> for \<^verbatim>\<open>t#USER#u\<close> returns the appointment that \<^verbatim>\<open>u#USER#v\<close> created
  under \<^verbatim>\<open>t\<close>. \<^verbatim>\<open>getAppointment\<close> for the same tenant \<^verbatim>\<open>t#USER#u\<close> and the identifier of
  that appointment finds nothing, as the claim says.
\<close>

theorem cross_tenant_leak:
  "fst (createAppointment any_email [] ''t'' ''u#USER#v'' ''tenant-user'' sync_data ''a-1'' created_at 0)
     = Inr (sync_created ''t'' ''u#USER#v'')
   \<and> tenantId (sync_created ''t'' ''u#USER#v'') = ''t''
   \<and> hasTenantAccess [''tenant-user''] (Some ''t#USER#u'') ''t#USER#u''
   \<and> \<not> hasTenantAccess [''tenant-user''] (Some ''t#USER#u'') ''t''
   \<and> map_sum id (map (\<lambda>item. (tenantId item, appointmentId item)))
         (listAppointments separator_table ''t#USER#u'' ''v'' ''tenant-user'' no_filters)
       = Inr [(''t'', ''a-1'')]
   \<and> getAppointment separator_table ''t#USER#u'' ''a-1'' ''v'' ''tenant-user'' = Inr None"
  by (simp add: separator_table_def create_sync)
     (simp add: eval_sync hasTenantAccess_def listAppointments_def present_def
        ddb_query_GSI2_def GSI2PK_of_def no_filters_def getAppointment_def ddb_get_def
        has_key_def PK_of_def SK_of_def)

section \<open>Reading back what was created\<close>

text \<open>
  Claim C6 does not hold of the code: \<^verbatim>\<open>getAppointment\<close>, called by the owner right after
  the create, does not return a record equal to the one \<^verbatim>\<open>createAppointment\<close> returned.
  \<^verbatim>\<open>createAppointment\<close> returns the object \<^verbatim>\<open>appointment\<close>; \<^verbatim>\<open>getAppointment\<close> returns
  the stored item, which has the key attributes \<^verbatim>\<open>PK\<close>, \<^verbatim>\<open>SK\<close>, \<^verbatim>\<open>GSI1PK\<close>,
  \<^verbatim>\<open>GSI1SK\<close>, \<^verbatim>\<open>GSI2PK\<close>, \<^verbatim>\<open>GSI2SK\<close> that the returned object has not. (In the real
  table the item differs in \<^verbatim>\<open>startTime\<close> and \<^verbatim>\<open>endTime\<close> as well, which come back as
  empty maps.)
\<close>

theorem create_then_get_differs:
  "fst (createAppointment any_email [] ''t1'' ''u1'' ''tenant-user'' sync_data ''a-1'' created_at 0)
     = Inr (sync_created ''t1'' ''u1'')
   \<and> getAppointment sync_table ''t1'' ''a-1'' ''u1'' ''tenant-user'' \<noteq> Inr (Some (sync_created ''t1'' ''u1''))
   \<and> map_sum id (map_option PK) (getAppointment sync_table ''t1'' ''a-1'' ''u1'' ''tenant-user'')
       = Inr (Some (Some ''TENANT#t1#APPOINTMENT#a-1''))
   \<and> PK (sync_created ''t1'' ''u1'') = None"
  by (simp add: sync_table_def create_sync)
     (simp add: getAppointment_def ddb_get_def has_key_def eval_keys eval_sync)

section \<open>Who may update and delete\<close>

text \<open>
  Claim C5, as stated, fails: a tenant-wide administrator who is not the owner may not
  update or delete. The service lets a caller through when the role is \<^verbatim>\<open>super-admin\<close>
  or the caller is the owner, and for no other reason. User \<^verbatim>\<open>u2\<close> of the group
  \<^verbatim>\<open>tenant-admin\<close> of tenant \<^verbatim>\<open>t1\<close> has access to the tenant and the role
  \<^verbatim>\<open>tenant-admin\<close>; the update and the delete of the appointment of \<^verbatim>\<open>u1\<close>, which exists,
  are denied.
\<close>

theorem tenant_admin_denied:
  "hasTenantAccess [''tenant-admin''] (Some ''t1'') ''t1''
   \<and> determineUserRole [''tenant-admin''] = ''tenant-admin''
   \<and> getAppointment [sync_item ''t1'' ''u1''] ''t1'' ''a-1'' ''u1'' ''tenant-user'' = Inr (Some (sync_item ''t1'' ''u1''))
   \<and> updateAppointment any_email [sync_item ''t1'' ''u1''] ''t1'' ''a-1'' ''u2'' ''tenant-admin'' confirm_patch updated_at
       = (Inl AccessDenied, [sync_item ''t1'' ''u1''])
   \<and> deleteAppointment [sync_item ''t1'' ''u1''] ''t1'' ''a-1'' ''u2'' ''tenant-admin''
       = (Inl AccessDenied, [sync_item ''t1'' ''u1''])"
  by (simp add: hasTenantAccess_def determineUserRole_def updateAppointment_def deleteAppointment_def
        getAppointment_def get_sync confirm_patch_ok)
     (simp add: eval_sync)

text \<open>
  Claim C5, amended: an existing appointment may be updated (with a patch the schema
  accepts) or deleted by its owner or by a super administrator: the update returns the
  item with the patch applied, the delete returns \<^verbatim>\<open>true\<close>, and the table changes at that
  key only. For every other caller, a tenant-wide administrator included, the operation
  throws the access error and the table is unchanged.
\<close>

theorem update_delete_authorization:
  assumes "ddb_get tbl (PK_of t a) (SK_of a) = Some existing"
      and "updateAppointmentSchema isEmail patch = Some v"
  shows "updateAppointment isEmail tbl t a u r patch now =
           (if r = ''super-admin'' \<or> userId existing = u
            then (Inr (Some (set_clauses v now existing)),
                  map (\<lambda>item. if has_key (PK_of t a) (SK_of a) item then set_clauses v now item else item) tbl)
            else (Inl AccessDenied, tbl))
       \<and> deleteAppointment tbl t a u r =
           (if r = ''super-admin'' \<or> userId existing = u
            then (Inr True, filter (\<lambda>item. \<not> has_key (PK_of t a) (SK_of a) item) tbl)
            else (Inl AccessDenied, tbl))"
  using assms
  by (auto simp: updateAppointment_def deleteAppointment_def getAppointment_def ddb_update_def ddb_delete_def)

theorem update_delete_authorization_witness:
  "updateAppointment any_email [sync_item ''t1'' ''u1''] ''t1'' ''a-1'' ''u1'' ''tenant-user'' confirm_patch updated_at
     = (Inr (Some (set_clauses confirm_patch updated_at (sync_item ''t1'' ''u1''))),
        [set_clauses confirm_patch updated_at (sync_item ''t1'' ''u1'')])
   \<and> status (set_clauses confirm_patch updated_at (sync_item ''t1'' ''u1'')) = ''confirmed''
   \<and> deleteAppointment [sync_item ''t1'' ''u1''] ''t1'' ''a-1'' ''u9'' ''super-admin'' = (Inr True, [])
   \<and> updateAppointment any_email [sync_item ''t1'' ''u1''] ''t1'' ''a-1'' ''u2'' ''tenant-user'' confirm_patch updated_at
     = (Inl AccessDenied, [sync_item ''t1'' ''u1''])
   \<and> deleteAppointment [sync_item ''t1'' ''u1''] ''t1'' ''a-1'' ''u2'' ''tenant-user''
     = (Inl AccessDenied, [sync_item ''t1'' ''u1''])"
  using update_delete_authorization [OF get_sync [of "''t1''" "''u1''"] confirm_patch_ok [of any_email],
          where u = "''u1''" and r = "''tenant-user''" and now = updated_at]
        update_delete_authorization [OF get_sync [of "''t1''" "''u1''"] confirm_patch_ok [of any_email],
          where u = "''u9''" and r = "''super-admin''" and now = updated_at]
        update_delete_authorization [OF get_sync [of "''t1''" "''u1''"] confirm_patch_ok [of any_email],
          where u = "''u2''" and r = "''tenant-user''" and now = updated_at]
  by (simp add: has_key_def eval_keys eval_sync set_clauses_def confirm_patch_def empty_patch_def)

section \<open>The empty patch\<close>

text \<open>
  Claim C7, as stated, fails: an update with the empty patch \<^verbatim>\<open>{}\<close> does not succeed. The
  update schema ends in \<^verbatim>\<open>.min(1)\<close>, at least one key; for the appointment of the
  scenario, which exists, and its owner, the update with \<^verbatim>\<open>{}\<close> throws the validation
  error.
\<close>

theorem empty_patch_does_not_succeed:
  "getAppointment [sync_item ''t1'' ''u1''] ''t1'' ''a-1'' ''u1'' ''tenant-user'' = Inr (Some (sync_item ''t1'' ''u1''))
   \<and> updateAppointment any_email [sync_item ''t1'' ''u1''] ''t1'' ''a-1'' ''u1'' ''tenant-user'' empty_patch updated_at
     = (Inl ValidationError, [sync_item ''t1'' ''u1''])"
  by (simp add: updateAppointment_def eval_schema getAppointment_def get_sync)
     (simp add: eval_sync)

text \<open>
  Claim C7, amended: an update with the empty patch \<^verbatim>\<open>{}\<close> is rejected with the validation
  error, for every record and every caller and each time it is applied, and it leaves the
  table as it is: neither \<^verbatim>\<open>startTime\<close> nor \<^verbatim>\<open>endTime\<close> nor \<^verbatim>\<open>updatedAt\<close> nor an index
  key of any record changes.
\<close>

theorem empty_patch_rejected:
  "updateAppointment isEmail tbl t a u r empty_patch now = (Inl ValidationError, tbl)"
  by (simp add: updateAppointment_def eval_schema)

theorem empty_patch_rejected_witness:
  "updateAppointment any_email [sync_item ''t1'' ''u1''] ''t1'' ''a-1'' ''u1'' ''tenant-user'' empty_patch updated_at
     = (Inl ValidationError, [sync_item ''t1'' ''u1''])
   \<and> updateAppointment any_email [] ''t1'' ''a-1'' ''u9'' ''super-admin'' empty_patch updated_at
     = (Inl ValidationError, [])"
  using empty_patch_rejected [of any_email "[sync_item ''t1'' ''u1'']" "''t1''" "''a-1''" "''u1''" "''tenant-user''" updated_at]
        empty_patch_rejected [of any_email "[]" "''t1''" "''a-1''" "''u9''" "''super-admin''" updated_at]
  by simp

section \<open>Create validates the order of the two times\<close>

text \<open>
  Claim C8. A create whose \<^verbatim>\<open>endTime\<close> is not strictly after its \<^verbatim>\<open>startTime\<close> (equal
  times included) fails with the validation error, and the table is unchanged: nothing
  is put, so no record and no index entry is written.
\<close>

theorem create_rejects_end_not_after_start:
  assumes "appointmentData.startTime d = Some s" and "appointmentData.endTime d = Some e"
      and "\<not> earlier s e"
  shows "createAppointment isEmail tbl t u r d uuid now nowMs = (Inl ValidationError, tbl)"
  using assms
  by (simp add: createAppointment_def appointmentSchema_def split: option.splits)

theorem create_rejects_end_not_after_start_witness:
  "appointmentData.startTime backwards_data = Some at_1000
   \<and> appointmentData.endTime backwards_data = Some at_0900
   \<and> \<not> earlier at_1000 at_0900
   \<and> createAppointment any_email [sync_item ''t1'' ''u1''] ''t1'' ''u1'' ''tenant-user'' backwards_data ''a-2'' created_at 0
       = (Inl ValidationError, [sync_item ''t1'' ''u1''])
   \<and> createAppointment any_email [] ''t1'' ''u1'' ''tenant-user''
         (sync_data \<lparr> appointmentData.endTime := Some at_1000 \<rparr>) ''a-2'' created_at 0
       = (Inl ValidationError, [])"
  using create_rejects_end_not_after_start [of backwards_data at_1000 at_0900 any_email
          "[sync_item ''t1'' ''u1'']" "''t1''" "''u1''" "''tenant-user''" "''a-2''" created_at 0]
        create_rejects_end_not_after_start [of "sync_data \<lparr> appointmentData.endTime := Some at_1000 \<rparr>" at_1000 at_1000 any_email
          "[]" "''t1''" "''u1''" "''tenant-user''" "''a-2''" created_at 0]
  by (simp add: backwards_data_def sync_data_def empty_patch_def earlier_def at_1000_def at_0900_def)

section \<open>Groups the service does not know\<close>

text \<open>
  Claim C10. A caller whose groups (an absent \<^verbatim>\<open>cognito:groups\<close> is the empty list) hold
  none of \<^verbatim>\<open>super-admin\<close>, \<^verbatim>\<open>tenant-admin\<close> and \<^verbatim>\<open>tenant-user\<close> has access to no tenant,
  the tenant of the token included. For a request with such a token, \<^verbatim>\<open>validateRequest\<close>
  answers \<^verbatim>\<open>Access denied to tenant\<close> and the handler returns 401 without a call of the
  service: the table is unchanged.
\<close>

theorem unrecognised_groups_denied:
  assumes "''super-admin'' \<notin> set userGroups" and "''tenant-admin'' \<notin> set userGroups"
      and "''tenant-user'' \<notin> set userGroups"
      and "present (path_tenantId event) = Some requestedTenantId"
      and "header_of event = Some h" and "replace ''Bearer '' [] h \<noteq> []"
      and "verifyToken jwt_decode authNowMs (replace ''Bearer '' [] h) = Some decodedToken"
      and "userGroups = (case cognito_groups decodedToken of None \<Rightarrow> [] | Some gs \<Rightarrow> gs)"
  shows "hasTenantAccess userGroups userTenantId anyTenantId = False
       \<and> validateRequest jwt_decode authNowMs event requestedTenantId = Invalid ''Access denied to tenant''
       \<and> handler jwt_decode JSON_parse isEmail tbl event authNowMs uuid now nowMs
           = (failure 401 ''Unauthorized'' (Some ''Access denied to tenant''), tbl)"
proof -
  have deny: "hasTenantAccess userGroups x y = False" for x y
    using assms(1-3) by (simp add: hasTenantAccess_def)
  have v: "validateRequest jwt_decode authNowMs event requestedTenantId = Invalid ''Access denied to tenant''"
    using assms(5-8) deny by (simp add: validateRequest_def Let_def)
  show ?thesis
    by (simp add: deny v handler_def assms(4))
qed

lemma replace_Bearer_abc: "replace ''Bearer '' [] ''Bearer abc'' = ''abc''"
  by simp

theorem unrecognised_groups_denied_witness:
  "''super-admin'' \<notin> set [''guests''] \<and> ''tenant-admin'' \<notin> set [''guests'']
   \<and> ''tenant-user'' \<notin> set [''guests'']
   \<and> verifyToken decode_abc 0 ''abc'' = Some no_groups_token
   \<and> cognito_groups no_groups_token = Some [''guests'']
   \<and> custom_tenant_id no_groups_token = Some ''t1''
   \<and> hasTenantAccess [''guests''] (Some ''t1'') ''t1'' = False
   \<and> validateRequest decode_abc 0 no_groups_event ''t1'' = Invalid ''Access denied to tenant''
   \<and> handler decode_abc parse_sync any_email [] no_groups_event 0 ''a-1'' created_at 0
       = (failure 401 ''Unauthorized'' (Some ''Access denied to tenant''), [])"
proof -
  have g: "''super-admin'' \<notin> set [''guests'']" "''tenant-admin'' \<notin> set [''guests'']"
          "''tenant-user'' \<notin> set [''guests'']"
    by simp_all
  have t: "present (path_tenantId no_groups_event) = Some ''t1''"
    by (simp add: no_groups_event_def present_def)
  have h: "header_of no_groups_event = Some ''Bearer abc''"
    by (simp add: no_groups_event_def present_def header_of_def)
  have r: "replace ''Bearer '' [] ''Bearer abc'' \<noteq> []"
    by (simp add: replace_Bearer_abc)
  have v: "verifyToken decode_abc 0 (replace ''Bearer '' [] ''Bearer abc'') = Some no_groups_token"
    by (simp add: replace_Bearer_abc verifyToken_def decode_abc_def no_groups_token_def)
  have c: "[''guests''] = (case cognito_groups no_groups_token of None \<Rightarrow> [] | Some gs \<Rightarrow> gs)"
    by (simp add: no_groups_token_def)
  have p: "cognito_groups no_groups_token = Some [''guests'']"
          "custom_tenant_id no_groups_token = Some ''t1''"
    by (simp_all add: no_groups_token_def)
  from unrecognised_groups_denied [OF g t h r v c, of "Some ''t1''" "''t1''" parse_sync any_email "[]" "''a-1''" created_at 0]
  show ?thesis
    using g v p by (simp add: replace_Bearer_abc)
qed

section \<open>Updates of the two times\<close>

text \<open>
  Claim C2 does not hold of the code. The update schema has no rule on the order of
  \<^verbatim>\<open>startTime\<close> and \<^verbatim>\<open>endTime\<close> (the create schema has \<^verbatim>\<open>greater(Joi.ref('startTime'))\<close>),
  and \<^verbatim>\<open>updateAppointment\<close> checks nothing on the merged record. The owner's update of
  the scenario's appointment (10:00 to 10:30) with \<^verbatim>\<open>{endTime: 09:00}\<close> succeeds, and the
  stored record ends before it starts.
\<close>

theorem update_stores_end_before_start:
  "updateAppointment any_email [sync_item ''t1'' ''u1''] ''t1'' ''a-1'' ''u1'' ''tenant-user'' end_0900_patch updated_at
     = (Inr (Some sync_item_end_0900), [sync_item_end_0900])
   \<and> startTime sync_item_end_0900 = at_1000 \<and> endTime sync_item_end_0900 = at_0900
   \<and> earlier (endTime sync_item_end_0900) (startTime sync_item_end_0900)"
  by (simp add: updateAppointment_def eval_schema end_0900_patch_def getAppointment_def get_sync ddb_update_def)
     (simp add: eval_sync eval_keys has_key_def set_clauses_def sync_item_end_0900_def earlier_def at_0900_def at_1000_def)

text \<open>No update changes an index sort key of any item.\<close>

lemma updateAppointment_keeps_sort_keys:
  assumes "updateAppointment isEmail tbl t a u r d now = (res, tbl')"
  shows "map GSI1SK tbl' = map GSI1SK tbl \<and> map GSI2SK tbl' = map GSI2SK tbl"
proof -
  have "GSI1SK \<circ> (\<lambda>item. if P item then set_clauses v now item else item) = GSI1SK"
       "GSI2SK \<circ> (\<lambda>item. if P item then set_clauses v now item else item) = GSI2SK" for P v
    by (auto simp: fun_eq_iff)
  with updateAppointment_table [OF assms] show ?thesis by auto
qed

text \<open>
  Claim C3 does not hold of the code. \<^verbatim>\<open>updateAppointment\<close> has the comment
  \<^verbatim>\<open>If startTime or endTime changed, update GSI keys\<close>, and its update expression sets
  \<^verbatim>\<open>updatedAt\<close> and the keys of the patch, nothing else. The owner's update of the
  scenario's appointment with \<^verbatim>\<open>{startTime: 09:00}\<close> succeeds; the stored record starts
  at 09:00 and both of its index sort keys still encode 10:00, not what the codec gives
  for 09:00.
\<close>

theorem update_keeps_stale_sort_keys:
  "updateAppointment any_email [sync_item ''t1'' ''u1''] ''t1'' ''a-1'' ''u1'' ''tenant-user'' start_0900_patch updated_at
     = (Inr (Some sync_item_start_0900), [sync_item_start_0900])
   \<and> startTime sync_item_start_0900 = at_0900
   \<and> GSI1SK sync_item_start_0900 = Some ''DATE#2024-06-01#TIME#10:00:00''
   \<and> GSI2SK sync_item_start_0900 = Some ''DATE#2024-06-01#TIME#10:00:00''
   \<and> GSI1SK_of at_0900 = ''DATE#2024-06-01#TIME#09:00:00''
   \<and> GSI2SK_of at_0900 = ''DATE#2024-06-01#TIME#09:00:00''"
  by (simp add: updateAppointment_def eval_schema start_0900_patch_def getAppointment_def get_sync ddb_update_def)
     (simp add: eval_sync eval_keys has_key_def set_clauses_def sync_item_start_0900_def at_0900_def eval_sort_key)

end
